theory Spec2Isabelle
  imports Main
begin

section \<open>Python text and values\<close>

text \<open>
  A Python \<open>str\<close> is a sequence of Unicode code points. A HOL \<open>char\<close> has only 256
  values, so text is modelled as a list of code points (natural numbers); \<open>py\<close> turns an
  ASCII literal into such a list. The degree sign of the weather sentence is the single
  code point U+00B0 (176).
\<close>

type_synonym pystr = "nat list"

definition py :: "string \<Rightarrow> pystr" where
  "py s = map of_char s"

text \<open>
  The values that reach the program: what \<open>json.loads\<close> can return and what the schema
  literal is built from. A \<open>dict\<close> keeps its keys in insertion order, so it is an
  association list with distinct keys. Floating-point arithmetic is not embedded: a
  \<open>float\<close> is kept as the literal text that denotes it (the argument handed to
  \<open>float()\<close>).
\<close>

datatype pyval =
    PyNone
  | PyBool bool
  | PyInt int
  | PyFloat pystr
  | PyStr pystr
  | PyList "pyval list"
  | PyDict "(pystr \<times> pyval) list"

text \<open>
  Three functions of the interpreter are parameters of the model, because they rest on
  floating point or on the Unicode database: \<open>repr\<close> of a float, \<open>repr\<close> of a
  \<open>str\<close> (quoting and escaping), and the text \<open>json.dumps\<close> writes for a float.
  All three are total in Python.
\<close>

record runtime =
  float_repr :: "pystr \<Rightarrow> pystr"
  str_repr :: "pystr \<Rightarrow> pystr"
  float_json :: "pystr \<Rightarrow> pystr"

fun join :: "pystr \<Rightarrow> pystr list \<Rightarrow> pystr" where
  "join sep [] = []"
| "join sep [x] = x"
| "join sep (x # y # ys) = x @ sep @ join sep (y # ys)"

fun nat_str :: "nat \<Rightarrow> pystr" where
  "nat_str n = (if n < 10 then [48 + n] else nat_str (n div 10) @ [48 + n mod 10])"

declare nat_str.simps [simp del]

definition int_str :: "int \<Rightarrow> pystr" where
  "int_str i = (if i < 0 then 45 # nat_str (nat (- i)) else nat_str (nat i))"

text \<open>\<open>repr(v)\<close>: how a value is written inside a list or a dict.\<close>

fun py_repr :: "runtime \<Rightarrow> pyval \<Rightarrow> pystr" where
  "py_repr rt PyNone = py ''None''"
| "py_repr rt (PyBool b) = (if b then py ''True'' else py ''False'')"
| "py_repr rt (PyInt i) = int_str i"
| "py_repr rt (PyFloat t) = float_repr rt t"
| "py_repr rt (PyStr s) = str_repr rt s"
| "py_repr rt (PyList xs) = py ''['' @ join (py '', '') (map (py_repr rt) xs) @ py '']''"
| "py_repr rt (PyDict kvs) =
     py ''{'' @ join (py '', '')
       (map (\<lambda>kv. str_repr rt (fst kv) @ py '': '' @ py_repr rt (snd kv)) kvs) @ py ''}''"

text \<open>
  \<open>format(v, '')\<close>, which an f-string field \<open>{v}\<close> applies: a \<open>str\<close> is inserted as
  it is, every other value through \<open>str(v)\<close>, which for these types is \<open>repr(v)\<close>.
\<close>

fun py_format :: "runtime \<Rightarrow> pyval \<Rightarrow> pystr" where
  "py_format rt (PyStr s) = s"
| "py_format rt v = py_repr rt v"

section \<open>The capability function\<close>

text \<open>
  \<^verbatim>\<open>def get_weather(location):
    return f"The weather in {location} is sunny and 72<U+00B0>F"\<close>
\<close>

definition get_weather :: "runtime \<Rightarrow> pyval \<Rightarrow> pystr" where
  "get_weather rt location =
     py ''The weather in '' @ py_format rt location @ py '' is sunny and 72'' @ [176] @ py ''F''"

section \<open>The standard library: \<open>json.loads\<close>\<close>

text \<open>
  The exceptions that can end a run: \<open>JSONDecodeError\<close>, \<open>ValueError\<close> and
  \<open>RecursionError\<close> from the decoder, \<open>AttributeError\<close> from calling \<open>.get\<close> on a
  value that has no such method, and \<open>UnicodeEncodeError\<close> from \<open>print\<close>.
\<close>

datatype py_error =
  JSONDecodeError | ValueError | RecursionError | AttributeError | UnicodeEncodeError

text \<open>
  The decoder of the standard library, as the program calls it (default arguments, strict
  mode). It accepts the JSON grammar with the interpreter's extensions \<open>NaN\<close>,
  \<open>Infinity\<close> and \<open>-Infinity\<close>, refuses a leading byte-order mark, and raises
  \<open>JSONDecodeError\<close> on text outside that grammar. Two limits of the interpreter
  (CPython 3.11, default settings) make it raise on text inside the grammar: an integer
  literal of more than 4300 digits is a \<open>ValueError\<close>, and entering an array or object
  nested more than 995 deep, counted from a call at module level as in this program, is a
  \<open>RecursionError\<close>.
\<close>

definition max_str_digits :: nat where
  "max_str_digits = 4300"

definition recursion_limit :: nat where
  "recursion_limit = 995"

text \<open>Whitespace between tokens: space, tab, line feed, carriage return.\<close>

definition is_ws :: "nat \<Rightarrow> bool" where
  "is_ws c \<longleftrightarrow> c = 32 \<or> c = 9 \<or> c = 10 \<or> c = 13"

definition skip_ws :: "pystr \<Rightarrow> pystr" where
  "skip_ws s = dropWhile is_ws s"

definition is_digit :: "nat \<Rightarrow> bool" where
  "is_digit c \<longleftrightarrow> 48 \<le> c \<and> c \<le> 57"

text \<open>
  String literals. \<open>scanstring chunks s\<close> reads the rest of a literal after its opening
  quote and returns the decoded text with the input left after the closing quote. A
  control character below U+0020 or an unknown escape is an error; a high surrogate
  escape directly followed by a low surrogate escape is one code point.
\<close>

definition hex_val :: "nat \<Rightarrow> nat option" where
  "hex_val c =
     (if 48 \<le> c \<and> c \<le> 57 then Some (c - 48)
      else if 65 \<le> c \<and> c \<le> 70 then Some (c - 55)
      else if 97 \<le> c \<and> c \<le> 102 then Some (c - 87)
      else None)"

fun decode_uXXXX :: "pystr \<Rightarrow> nat option" where
  "decode_uXXXX (a # b # c # d # r) =
     (case (hex_val a, hex_val b, hex_val c, hex_val d) of
        (Some w, Some x, Some y, Some z) \<Rightarrow> Some (((w * 16 + x) * 16 + y) * 16 + z)
      | _ \<Rightarrow> None)"
| "decode_uXXXX s = None"

definition backslash :: "nat \<Rightarrow> nat option" where
  "backslash esc =
     (if esc = 34 then Some 34
      else if esc = 92 then Some 92
      else if esc = 47 then Some 47
      else if esc = 98 then Some 8
      else if esc = 102 then Some 12
      else if esc = 110 then Some 10
      else if esc = 114 then Some 13
      else if esc = 116 then Some 9
      else None)"

fun scanstring :: "pystr \<Rightarrow> pystr \<Rightarrow> (pystr \<times> pystr) option" where
  "scanstring chunks [] = None"
| "scanstring chunks (c # cs) =
     (if c = 34 then Some (chunks, cs)
      else if c = 92 then
        (case cs of
           [] \<Rightarrow> None
         | esc # r \<Rightarrow>
             if esc \<noteq> 117 then
               (case backslash esc of
                  None \<Rightarrow> None
                | Some ch \<Rightarrow> scanstring (chunks @ [ch]) r)
             else
               (case decode_uXXXX r of
                  None \<Rightarrow> None
                | Some uni \<Rightarrow>
                    if 0xD800 \<le> uni \<and> uni \<le> 0xDBFF \<and> take 2 (drop 4 r) = [92, 117] then
                      (case decode_uXXXX (drop 6 r) of
                         None \<Rightarrow> None
                       | Some uni2 \<Rightarrow>
                           if 0xDC00 \<le> uni2 \<and> uni2 \<le> 0xDFFF then
                             scanstring
                               (chunks @ [0x10000 + ((uni - 0xD800) * 1024 + (uni2 - 0xDC00))])
                               (drop 10 r)
                           else scanstring (chunks @ [uni]) (drop 4 r))
                    else scanstring (chunks @ [uni]) (drop 4 r)))
      else if c < 32 then None
      else scanstring (chunks @ [c]) cs)"

text \<open>
  Numbers: the longest prefix matching
  \<^verbatim>\<open>(-?(?:0|[1-9][0-9]*))(\.[0-9]+)?([eE][-+]?[0-9]+)?\<close>,
  split into its integer part, fraction and exponent, with the input left after it.
  Without fraction and exponent the literal is handed to \<open>int()\<close>, which counts the
  digits (not the sign) against the limit; otherwise it is handed to \<open>float()\<close>.
\<close>

definition scan_exp :: "pystr \<Rightarrow> pystr \<times> pystr" where
  "scan_exp s =
     (case s of
        [] \<Rightarrow> ([], s)
      | e # r \<Rightarrow>
          if e \<noteq> 101 \<and> e \<noteq> 69 then ([], s)
          else
            let sgn = (case r of [] \<Rightarrow> [] | c # cs \<Rightarrow> if c = 45 \<or> c = 43 then [c] else []);
                ds = takeWhile is_digit (drop (length sgn) r)
            in if ds = [] then ([], s)
               else (e # sgn @ ds, drop (length sgn + length ds) r))"

definition scan_frac :: "pystr \<Rightarrow> pystr \<times> pystr" where
  "scan_frac s =
     (case s of
        [] \<Rightarrow> ([], s)
      | p # r \<Rightarrow>
          if p \<noteq> 46 \<or> takeWhile is_digit r = [] then ([], s)
          else (p # takeWhile is_digit r, dropWhile is_digit r))"

definition match_number :: "pystr \<Rightarrow> ((pystr \<times> pystr \<times> pystr) \<times> pystr) option" where
  "match_number s =
     (let sgn = (case s of [] \<Rightarrow> [] | c # cs \<Rightarrow> if c = 45 then [c] else []);
          s1 = drop (length sgn) s
      in case s1 of
           [] \<Rightarrow> None
         | d # r \<Rightarrow>
             if \<not> is_digit d then None
             else
               let digits = (if d = 48 then [d] else takeWhile is_digit s1);
                   (frac, r2) = scan_frac (drop (length digits) s1);
                   (exp, r3) = scan_exp r2
               in Some ((sgn @ digits, frac, exp), r3))"

definition digits_val :: "pystr \<Rightarrow> int" where
  "digits_val ds = foldl (\<lambda>a d. a * 10 + int (d - 48)) 0 ds"

definition parse_int :: "pystr \<Rightarrow> py_error + pyval" where
  "parse_int integer =
     (let digits = (case integer of [] \<Rightarrow> [] | c # cs \<Rightarrow> if c = 45 then cs else integer)
      in if length digits > max_str_digits then Inl ValueError
         else Inr (PyInt (if digits = integer then digits_val digits else - digits_val digits)))"

text \<open>
  \<open>dict(pairs)\<close>: a repeated key keeps its first position and takes the last value.
\<close>

fun dict_setitem :: "(pystr \<times> pyval) list \<Rightarrow> pystr \<Rightarrow> pyval \<Rightarrow> (pystr \<times> pyval) list" where
  "dict_setitem [] k v = [(k, v)]"
| "dict_setitem ((k', v') # d) k v =
     (if k' = k then (k', v) # d else (k', v') # dict_setitem d k v)"

definition dict_of_pairs :: "(pystr \<times> pyval) list \<Rightarrow> (pystr \<times> pyval) list" where
  "dict_of_pairs pairs = foldl (\<lambda>d kv. dict_setitem d (fst kv) (snd kv)) [] pairs"

text \<open>
  The recursive descent over values, arrays and objects. \<open>depth\<close> is how many more
  arrays and objects may be entered. The recursion itself is bounded by a fuel argument
  that every call decrements; \<open>Exhausted\<close> is the result of running out of it. Lemma
  \<open>scan_once_fuel\<close> below shows that the fuel \<open>json_loads\<close> supplies is always enough,
  so its last case is never taken.
\<close>

datatype scan = Scanned pyval pystr | Raised py_error | Exhausted

fun scan_once :: "nat \<Rightarrow> nat \<Rightarrow> pystr \<Rightarrow> scan"
and parse_array :: "nat \<Rightarrow> nat \<Rightarrow> pyval list \<Rightarrow> pystr \<Rightarrow> scan"
and parse_object :: "nat \<Rightarrow> nat \<Rightarrow> (pystr \<times> pyval) list \<Rightarrow> pystr \<Rightarrow> scan"
where
  "scan_once 0 depth s = Exhausted"
| "scan_once (Suc n) depth s =
     (case s of
        [] \<Rightarrow> Raised JSONDecodeError
      | c # cs \<Rightarrow>
          if c = 34 then
            (case scanstring [] cs of
               None \<Rightarrow> Raised JSONDecodeError
             | Some (str, r) \<Rightarrow> Scanned (PyStr str) r)
          else if c = 123 then
            (if depth = 0 then Raised RecursionError
             else
               case skip_ws cs of
                 [] \<Rightarrow> Raised JSONDecodeError
               | d # r \<Rightarrow>
                   if d = 125 then Scanned (PyDict []) r
                   else parse_object n (depth - 1) [] (d # r))
          else if c = 91 then
            (if depth = 0 then Raised RecursionError
             else
               case skip_ws cs of
                 [] \<Rightarrow> Raised JSONDecodeError
               | d # r \<Rightarrow>
                   if d = 93 then Scanned (PyList []) r
                   else parse_array n (depth - 1) [] (d # r))
          else if take 4 s = py ''null'' then Scanned PyNone (drop 4 s)
          else if take 4 s = py ''true'' then Scanned (PyBool True) (drop 4 s)
          else if take 5 s = py ''false'' then Scanned (PyBool False) (drop 5 s)
          else
            (case match_number s of
               Some ((integer, frac, exp), r) \<Rightarrow>
                 if frac = [] \<and> exp = [] then
                   (case parse_int integer of
                      Inl e \<Rightarrow> Raised e
                    | Inr res \<Rightarrow> Scanned res r)
                 else Scanned (PyFloat (integer @ frac @ exp)) r
             | None \<Rightarrow>
                 if take 3 s = py ''NaN'' then Scanned (PyFloat (py ''NaN'')) (drop 3 s)
                 else if take 8 s = py ''Infinity'' then Scanned (PyFloat (py ''Infinity'')) (drop 8 s)
                 else if take 9 s = py ''-Infinity'' then Scanned (PyFloat (py ''-Infinity'')) (drop 9 s)
                 else Raised JSONDecodeError))"
| "parse_array 0 depth vals s = Exhausted"
| "parse_array (Suc n) depth vals s =
     (case scan_once n depth s of
        Scanned v r \<Rightarrow>
          (case skip_ws r of
             [] \<Rightarrow> Raised JSONDecodeError
           | c # r' \<Rightarrow>
               if c = 93 then Scanned (PyList (vals @ [v])) r'
               else if c = 44 then parse_array n depth (vals @ [v]) (skip_ws r')
               else Raised JSONDecodeError)
      | Raised e \<Rightarrow> Raised e
      | Exhausted \<Rightarrow> Exhausted)"
| "parse_object 0 depth pairs s = Exhausted"
| "parse_object (Suc n) depth pairs s =
     (case s of
        [] \<Rightarrow> Raised JSONDecodeError
      | q # cs \<Rightarrow>
          if q \<noteq> 34 then Raised JSONDecodeError
          else
            (case scanstring [] cs of
               None \<Rightarrow> Raised JSONDecodeError
             | Some (key, r) \<Rightarrow>
                 (case skip_ws r of
                    [] \<Rightarrow> Raised JSONDecodeError
                  | colon # r1 \<Rightarrow>
                      if colon \<noteq> 58 then Raised JSONDecodeError
                      else
                        (case scan_once n depth (skip_ws r1) of
                           Scanned v r2 \<Rightarrow>
                             (case skip_ws r2 of
                                [] \<Rightarrow> Raised JSONDecodeError
                              | c # r3 \<Rightarrow>
                                  if c = 125 then
                                    Scanned (PyDict (dict_of_pairs (pairs @ [(key, v)]))) r3
                                  else if c = 44 then
                                    parse_object n depth (pairs @ [(key, v)]) (skip_ws r3)
                                  else Raised JSONDecodeError)
                         | Raised e \<Rightarrow> Raised e
                         | Exhausted \<Rightarrow> Exhausted))))"

definition json_loads :: "pystr \<Rightarrow> py_error + pyval" where
  "json_loads s =
     (if take 1 s = [0xFEFF] then Inl JSONDecodeError
      else
        case scan_once (Suc (length s + length s)) recursion_limit (skip_ws s) of
          Scanned obj r \<Rightarrow> if skip_ws r = [] then Inr obj else Inl JSONDecodeError
        | Raised e \<Rightarrow> Inl e
        | Exhausted \<Rightarrow> Inl JSONDecodeError)"

section \<open>The standard library: \<open>json.dumps\<close>\<close>

text \<open>
  The encoder with its default arguments: separators \<open>", "\<close> and \<open>": "\<close>, no line
  breaks, and every character outside printable ASCII written as an escape.
\<close>

definition hex_digit :: "nat \<Rightarrow> nat" where
  "hex_digit d = (if d < 10 then 48 + d else 87 + d)"

definition hex4 :: "nat \<Rightarrow> pystr" where
  "hex4 n = [hex_digit (n div 4096 mod 16), hex_digit (n div 256 mod 16),
             hex_digit (n div 16 mod 16), hex_digit (n mod 16)]"

definition escape_char :: "nat \<Rightarrow> pystr" where
  "escape_char c =
     (if c = 92 then [92, 92]
      else if c = 34 then [92, 34]
      else if c = 8 then [92, 98]
      else if c = 12 then [92, 102]
      else if c = 10 then [92, 110]
      else if c = 13 then [92, 114]
      else if c = 9 then [92, 116]
      else if 32 \<le> c \<and> c \<le> 126 then [c]
      else if c < 0x10000 then [92, 117] @ hex4 c
      else [92, 117] @ hex4 (0xD800 + (c - 0x10000) div 1024 mod 1024) @
           [92, 117] @ hex4 (0xDC00 + (c - 0x10000) mod 1024))"

definition encode_basestring_ascii :: "pystr \<Rightarrow> pystr" where
  "encode_basestring_ascii s = [34] @ concat (map escape_char s) @ [34]"

fun json_dumps :: "runtime \<Rightarrow> pyval \<Rightarrow> pystr" where
  "json_dumps rt PyNone = py ''null''"
| "json_dumps rt (PyBool b) = (if b then py ''true'' else py ''false'')"
| "json_dumps rt (PyInt i) = int_str i"
| "json_dumps rt (PyFloat t) = float_json rt t"
| "json_dumps rt (PyStr s) = encode_basestring_ascii s"
| "json_dumps rt (PyList xs) = py ''['' @ join (py '', '') (map (json_dumps rt) xs) @ py '']''"
| "json_dumps rt (PyDict kvs) =
     py ''{'' @ join (py '', '')
       (map (\<lambda>kv. encode_basestring_ascii (fst kv) @ py '': '' @ json_dumps rt (snd kv)) kvs) @ py ''}''"

section \<open>The command line program\<close>

text \<open>The schema descriptor, the dict literal of the \<open>--schema\<close> branch.\<close>

definition schema :: pyval where
  "schema = PyDict [
     (py ''title'', PyStr (py ''get_weather'')),
     (py ''description'', PyStr (py ''Get the current weather for a location'')),
     (py ''type'', PyStr (py ''object'')),
     (py ''properties'', PyDict [
        (py ''location'', PyDict [
           (py ''type'', PyStr (py ''string'')),
           (py ''description'', PyStr (py ''The location to get weather for''))])]),
     (py ''required'', PyList [PyStr (py ''location'')])]"

text \<open>
  The process the script runs in: \<open>sys.argv\<close> (the script name first), the environment
  variables, the files it could open, and the text written to standard output so far.
\<close>

record process =
  argv :: "pystr list"
  environ :: "(pystr \<times> pystr) list"
  files :: "(pystr \<times> pystr) list"
  stdout :: pystr

text \<open>
  \<open>print(text)\<close> writes the text and a line feed to standard output, and raises
  \<open>UnicodeEncodeError\<close>, writing nothing, when the stream cannot encode one of the
  characters. What the stream can encode is fixed when the interpreter starts: by
  default UTF-8 with the error handler \<open>strict\<close>, which takes every code point but the
  surrogates U+D800 to U+DFFF; an ASCII stream takes the code points below 128.
\<close>

type_synonym codec = "nat \<Rightarrow> bool"

definition utf8 :: codec where
  "utf8 c \<longleftrightarrow> \<not> (0xD800 \<le> c \<and> c \<le> 0xDFFF)"

definition ascii :: codec where
  "ascii c \<longleftrightarrow> c < 128"

definition write_line :: "pystr \<Rightarrow> process \<Rightarrow> process" where
  "write_line text p = p\<lparr>stdout := stdout p @ text @ [10]\<rparr>"

definition print :: "codec \<Rightarrow> pystr \<Rightarrow> process \<Rightarrow> py_error + process" where
  "print enc text p =
     (if list_all enc (text @ [10]) then Inr (write_line text p) else Inl UnicodeEncodeError)"

text \<open>
  \<open>obj.get(key, default)\<close>: only a dict has the method; on any other value of this
  model the attribute lookup raises \<open>AttributeError\<close>.
\<close>

fun py_get :: "pyval \<Rightarrow> pystr \<Rightarrow> pyval \<Rightarrow> py_error + pyval" where
  "py_get (PyDict d) key dflt = Inr (case map_of d key of None \<Rightarrow> dflt | Some v \<Rightarrow> v)"
| "py_get obj key dflt = Inl AttributeError"

text \<open>
  The usage line:
  \<^verbatim>\<open>Usage: weather.py --schema | weather.py --execute '{"location": "New York"}'\<close>
\<close>

definition usage :: pystr where
  "usage = py ''Usage: weather.py --schema | weather.py --execute '{\"location\": \"New York\"}'' @ [39]"

text \<open>
  The \<open>__main__\<close> block, run with a standard output of codec \<open>enc\<close>. The result is the
  process after a normal exit (status 0), or the uncaught exception (traceback on the
  error stream, status 1, nothing printed). \<open>get_weather\<close> does not raise on a decoded
  value: \<open>str()\<close> of an int has the digit limit of \<open>int()\<close>, and \<open>repr\<close> of a nested
  value needs no more depth than decoding it did.
\<close>

definition main :: "codec \<Rightarrow> runtime \<Rightarrow> process \<Rightarrow> py_error + process" where
  "main enc rt p =
     (if length (argv p) > 1 \<and> argv p ! 1 = py ''--schema'' then
        print enc (json_dumps rt schema) p
      else if length (argv p) > 2 \<and> argv p ! 1 = py ''--execute'' then
        (case json_loads (argv p ! 2) of
           Inl e \<Rightarrow> Inl e
         | Inr args \<Rightarrow>
             (case py_get args (py ''location'') (PyStr (py ''unknown'')) of
                Inl e \<Rightarrow> Inl e
              | Inr location \<Rightarrow> print enc (get_weather rt location) p))
      else print enc usage p)"

definition exit_status :: "py_error + process \<Rightarrow> nat" where
  "exit_status r = (case r of Inl e \<Rightarrow> 1 | Inr p \<Rightarrow> 0)"

text \<open>
  What an observer of a run sees: the uncaught exception, or the text the run added to
  standard output.
\<close>

definition written :: "process \<Rightarrow> py_error + process \<Rightarrow> py_error + pystr" where
  "written p r =
     (case r of Inl e \<Rightarrow> Inl e | Inr p' \<Rightarrow> Inr (drop (length (stdout p)) (stdout p')))"

text \<open>
  A runtime for the concrete runs below: a float is written as its literal and a
  \<open>str\<close> between single quotes, which is what the interpreter does for a literal that
  is already in shortest form and for text of printable ASCII without quotes and
  backslashes.
\<close>

definition plain_runtime :: runtime where
  "plain_runtime =
     \<lparr>float_repr = (\<lambda>t. t), str_repr = (\<lambda>s. [39] @ s @ [39]), float_json = (\<lambda>t. t)\<rparr>"

text \<open>A process just started with the given arguments and nothing else around it.\<close>

definition fresh_process :: "pystr list \<Rightarrow> process" where
  "fresh_process args = \<lparr>argv = args, environ = [], files = [], stdout = []\<rparr>"

section \<open>The decoder terminates\<close>

text \<open>
  Every successful scan consumes input, so the fuel that \<open>json_loads\<close> supplies (twice
  the length of the text, plus one) is never used up: the result \<open>Exhausted\<close> does not
  arise, and \<open>json_loads\<close> is the decoder's answer on every text.
\<close>

lemma skip_ws_length: "length (skip_ws s) \<le> length s"
  by (simp add: skip_ws_def length_dropWhile_le)

lemma skip_ws_Cons_length: "skip_ws s = c # r \<Longrightarrow> length r < length s"
  using skip_ws_length [of s] by simp

lemma skip_ws_less: "n < length (skip_ws s) \<Longrightarrow> n < length s"
  using skip_ws_length [of s] by simp

lemma scanstring_length: "scanstring chunks s = Some (t, r) \<Longrightarrow> length r < length s"
proof (induction "length s" arbitrary: s chunks rule: less_induct)
  case less
  show ?case
  proof (cases s)
    case Nil
    with less.prems show ?thesis by simp
  next
    case (Cons c cs)
    have IH: "length r < length s'"
      if "scanstring ch s' = Some (t, r)" and "length s' \<le> length cs" for ch s'
      using less.hyps [of s' ch] that Cons by simp
    from less.prems show ?thesis
      unfolding Cons
      by (auto split: if_splits list.splits option.splits dest!: IH)
  qed
qed

lemma scan_frac_length: "length (snd (scan_frac s)) \<le> length s"
  by (auto simp: scan_frac_def length_dropWhile_le le_SucI split: list.splits)

lemma scan_exp_length: "length (snd (scan_exp s)) \<le> length s"
  by (auto simp: scan_exp_def Let_def split: list.splits)

lemma match_number_length:
  assumes "match_number s = Some (m, r)"
  shows "length r < length s"
proof -
  define sgn where "sgn = (case s of [] \<Rightarrow> [] | c # cs \<Rightarrow> if c = 45 then [c] else [])"
  define s1 where "s1 = drop (length sgn) s"
  from assms obtain d r0 where s1: "s1 = d # r0" and dig: "is_digit d"
    by (auto simp: match_number_def Let_def sgn_def s1_def split: list.splits if_splits prod.splits)
  define digits where "digits = (if d = 48 then [d] else takeWhile is_digit s1)"
  have pos: "0 < length digits"
    using s1 dig by (simp add: digits_def)
  have r: "r = snd (scan_exp (snd (scan_frac (drop (length digits) s1))))"
    using assms s1 dig
    by (auto simp: match_number_def Let_def sgn_def s1_def digits_def
             split: list.splits if_splits prod.splits)
  have "length r \<le> length (drop (length digits) s1)"
    unfolding r using scan_exp_length scan_frac_length order_trans by blast
  also have "\<dots> < length s1"
    using pos s1 by simp
  also have "\<dots> \<le> length s"
    by (simp add: s1_def)
  finally show ?thesis .
qed

lemma scan_shorter:
  "(\<forall>depth s v r. scan_once n depth s = Scanned v r \<longrightarrow> length r < length s) \<and>
   (\<forall>depth vals s v r. parse_array n depth vals s = Scanned v r \<longrightarrow> length r < length s) \<and>
   (\<forall>depth pairs s v r. parse_object n depth pairs s = Scanned v r \<longrightarrow> length r < length s)"
proof (induction n)
  case 0
  show ?case by simp
next
  case (Suc n)
  have value_IH: "length r < length s" if "scan_once n depth s = Scanned v r" for depth s v r
    using Suc that by blast
  have array_IH: "length r < length s" if "parse_array n depth vals s = Scanned v r" for depth vals s v r
    using Suc that by blast
  have object_IH: "length r < length s" if "parse_object n depth pairs s = Scanned v r" for depth pairs s v r
    using Suc that by blast
  have "length r < length s" if "scan_once (Suc n) depth s = Scanned v r" for depth s v r
    using that
    by (auto split: list.splits if_splits option.splits prod.splits sum.splits
             dest!: scanstring_length skip_ws_Cons_length match_number_length
                    array_IH object_IH)
  moreover have "length r < length s" if "parse_array (Suc n) depth vals s = Scanned v r" for depth vals s v r
    using that
    by (auto split: list.splits if_splits scan.splits
             dest!: skip_ws_Cons_length skip_ws_less value_IH array_IH)
  moreover have "length r < length s" if "parse_object (Suc n) depth pairs s = Scanned v r" for depth pairs s v r
    using that
    by (auto split: list.splits if_splits option.splits prod.splits scan.splits
             dest!: scanstring_length skip_ws_Cons_length skip_ws_less value_IH object_IH)
  ultimately show ?case by blast
qed

lemma scan_fuel:
  "(\<forall>depth s. 2 * length s < n \<longrightarrow> scan_once n depth s \<noteq> Exhausted) \<and>
   (\<forall>depth vals s. 2 * length s + 1 < n \<longrightarrow> parse_array n depth vals s \<noteq> Exhausted) \<and>
   (\<forall>depth pairs s. 2 * length s + 1 < n \<longrightarrow> parse_object n depth pairs s \<noteq> Exhausted)"
proof (induction n)
  case 0
  show ?case by simp
next
  case (Suc n)
  have value_IH: "scan_once n depth s \<noteq> Exhausted" if "2 * length s < n" for depth s
    using Suc that by blast
  have array_IH: "parse_array n depth vals s \<noteq> Exhausted" if "2 * length s + 1 < n" for depth vals s
    using Suc that by blast
  have object_IH: "parse_object n depth pairs s \<noteq> Exhausted" if "2 * length s + 1 < n" for depth pairs s
    using Suc that by blast
  have shorter: "length r < length s" if "scan_once n depth s = Scanned v r" for depth s v r
    using scan_shorter [of n] that by blast
  have "scan_once (Suc n) depth s \<noteq> Exhausted" if "2 * length s < Suc n" for depth s
  proof (cases s)
    case Nil
    then show ?thesis by simp
  next
    case (Cons c cs)
    have "parse_array n depth [] (d # r) \<noteq> Exhausted" "parse_object n depth [] (d # r) \<noteq> Exhausted"
      if "skip_ws cs = d # r" for d r depth
    proof -
      have "length (d # r) \<le> length cs"
        using skip_ws_length [of cs] that by simp
      with \<open>2 * length s < Suc n\<close> Cons have "2 * length (d # r) + 1 < n"
        by simp
      then show "parse_array n depth [] (d # r) \<noteq> Exhausted" "parse_object n depth [] (d # r) \<noteq> Exhausted"
        using array_IH object_IH by blast+
    qed
    then show ?thesis
      unfolding Cons
      by (auto split: list.splits if_splits option.splits prod.splits sum.splits)
  qed
  moreover have "parse_array (Suc n) depth vals s \<noteq> Exhausted" if "2 * length s + 1 < Suc n" for depth vals s
  proof -
    have a: "scan_once n depth s \<noteq> Exhausted"
      using value_IH that by simp
    have b: "parse_array n depth vs (skip_ws r') \<noteq> Exhausted"
      if "scan_once n depth s = Scanned v r" "skip_ws r = c # r'" for v r c r' vs
    proof -
      have "length (skip_ws r') \<le> length r'" by (rule skip_ws_length)
      moreover have "length r' < length r" using that(2) by (rule skip_ws_Cons_length)
      moreover have "length r < length s" using that(1) by (rule shorter)
      ultimately have "2 * length (skip_ws r') + 1 < n"
        using \<open>2 * length s + 1 < Suc n\<close> by linarith
      then show ?thesis by (rule array_IH)
    qed
    show ?thesis
      using a b by (auto split: list.splits if_splits scan.splits)
  qed
  moreover have "parse_object (Suc n) depth pairs s \<noteq> Exhausted" if "2 * length s + 1 < Suc n" for depth pairs s
  proof (cases s)
    case Nil
    then show ?thesis by simp
  next
    case (Cons q cs)
    have a: "scan_once n depth (skip_ws r1) \<noteq> Exhausted"
      if "scanstring [] cs = Some (key, r)" "skip_ws r = colon # r1" for key r colon r1
    proof -
      have "length (skip_ws r1) \<le> length r1" by (rule skip_ws_length)
      moreover have "length r1 < length r" using that(2) by (rule skip_ws_Cons_length)
      moreover have "length r < length cs" using that(1) by (rule scanstring_length)
      ultimately have "2 * length (skip_ws r1) < n"
        using \<open>2 * length s + 1 < Suc n\<close> Cons by simp
      then show ?thesis by (rule value_IH)
    qed
    have b: "parse_object n depth ps (skip_ws r3) \<noteq> Exhausted"
      if "scanstring [] cs = Some (key, r)" "skip_ws r = colon # r1"
         "scan_once n depth (skip_ws r1) = Scanned v r2" "skip_ws r2 = c # r3"
      for key r colon r1 v r2 c r3 ps
    proof -
      have "length (skip_ws r3) \<le> length r3" by (rule skip_ws_length)
      moreover have "length r3 < length r2" using that(4) by (rule skip_ws_Cons_length)
      moreover have "length r2 < length (skip_ws r1)" using that(3) by (rule shorter)
      moreover have "length (skip_ws r1) \<le> length r1" by (rule skip_ws_length)
      moreover have "length r1 < length r" using that(2) by (rule skip_ws_Cons_length)
      moreover have "length r < length cs" using that(1) by (rule scanstring_length)
      ultimately have "2 * length (skip_ws r3) + 1 < n"
        using \<open>2 * length s + 1 < Suc n\<close> Cons by simp
      then show ?thesis by (rule object_IH)
    qed
    show ?thesis
      unfolding Cons using a b
      by (auto split: list.splits if_splits option.splits prod.splits scan.splits)
  qed
  ultimately show ?case by blast
qed

lemma scan_once_fuel: "scan_once (Suc (length s + length s)) depth (skip_ws s) \<noteq> Exhausted"
proof -
  have "2 * length (skip_ws s) < Suc (length s + length s)"
    using skip_ws_length [of s] by simp
  then show ?thesis
    using scan_fuel [of "Suc (length s + length s)"] by blast
qed

section \<open>What the decoder raises\<close>

lemma scan_raises:
  "(\<forall>depth s e. scan_once n depth s = Raised e \<longrightarrow>
      e = JSONDecodeError \<or> e = ValueError \<or> e = RecursionError) \<and>
   (\<forall>depth vals s e. parse_array n depth vals s = Raised e \<longrightarrow>
      e = JSONDecodeError \<or> e = ValueError \<or> e = RecursionError) \<and>
   (\<forall>depth pairs s e. parse_object n depth pairs s = Raised e \<longrightarrow>
      e = JSONDecodeError \<or> e = ValueError \<or> e = RecursionError)"
proof (induction n)
  case 0
  show ?case by simp
next
  case (Suc n)
  have value_IH: "e = JSONDecodeError \<or> e = ValueError \<or> e = RecursionError"
    if "scan_once n depth s = Raised e" for depth s e
    using Suc that by blast
  have array_IH: "e = JSONDecodeError \<or> e = ValueError \<or> e = RecursionError"
    if "parse_array n depth vals s = Raised e" for depth vals s e
    using Suc that by blast
  have object_IH: "e = JSONDecodeError \<or> e = ValueError \<or> e = RecursionError"
    if "parse_object n depth pairs s = Raised e" for depth pairs s e
    using Suc that by blast
  have "e = JSONDecodeError \<or> e = ValueError \<or> e = RecursionError"
    if "scan_once (Suc n) depth s = Raised e" for depth s e
    using that
    by (auto simp: parse_int_def Let_def
             split: list.splits if_splits option.splits prod.splits sum.splits
             dest: array_IH object_IH)
  moreover have "e = JSONDecodeError \<or> e = ValueError \<or> e = RecursionError"
    if "parse_array (Suc n) depth vals s = Raised e" for depth vals s e
    using that
    by (auto split: list.splits if_splits scan.splits dest: value_IH array_IH)
  moreover have "e = JSONDecodeError \<or> e = ValueError \<or> e = RecursionError"
    if "parse_object (Suc n) depth pairs s = Raised e" for depth pairs s e
    using that
    by (auto split: list.splits if_splits option.splits prod.splits scan.splits
             dest: value_IH object_IH)
  ultimately show ?case by blast
qed

lemma json_loads_error:
  assumes "json_loads s = Inl e"
  shows "e = JSONDecodeError \<or> e = ValueError \<or> e = RecursionError"
proof (cases "scan_once (Suc (length s + length s)) recursion_limit (skip_ws s)")
  case (Scanned v r)
  with assms show ?thesis
    by (simp add: json_loads_def split: if_splits del: scan_once.simps)
next
  case (Raised x)
  then have "x = JSONDecodeError \<or> x = ValueError \<or> x = RecursionError"
    using scan_raises [of "Suc (length s + length s)"] by blast
  with assms Raised show ?thesis
    by (auto simp: json_loads_def split: if_splits simp del: scan_once.simps)
next
  case Exhausted
  with assms show ?thesis
    by (simp add: json_loads_def split: if_splits del: scan_once.simps)
qed

text \<open>An integer literal of 4301 digits, and 996 opening brackets.\<close>

lemma long_integer_raises: "json_loads (49 # replicate 4300 49) = Inl ValueError"
proof -
  have m: "match_number (49 # replicate 4300 49) = Some ((49 # replicate 4300 49, [], []), [])"
    by (simp add: match_number_def is_digit_def scan_frac_def scan_exp_def takeWhile_replicate)
  have p: "parse_int (49 # replicate 4300 49) = Inl ValueError"
    by (simp add: parse_int_def max_str_digits_def)
  have step: "scan_once (Suc n) depth (49 # replicate 4300 49) = Raised ValueError" for n depth
    by (simp add: m p py_def)
  have sk: "skip_ws (49 # replicate 4300 49) = 49 # replicate 4300 49"
    by (simp add: skip_ws_def is_ws_def)
  show ?thesis
    unfolding json_loads_def sk step by simp
qed

lemma deep_brackets:
  "depth < length s \<Longrightarrow> set s \<subseteq> {91} \<Longrightarrow> 2 * depth < n \<Longrightarrow>
   scan_once n depth s = Raised RecursionError"
proof (induction depth arbitrary: n s)
  case 0
  then obtain m cs where "n = Suc m" "s = 91 # cs"
    by (cases n; cases s) auto
  then show ?case by simp
next
  case (Suc depth)
  from Suc.prems obtain m k cs where n: "n = Suc (Suc m)" and s: "s = 91 # 91 # cs"
    by (cases n; cases s; cases "tl s"; cases "n - 1") auto
  have "scan_once m depth (91 # cs) = Raised RecursionError"
    using Suc.prems by (intro Suc.IH) (auto simp: n s)
  then show ?case
    by (simp add: n s skip_ws_def is_ws_def)
qed

lemma deep_nesting_raises: "json_loads (replicate 996 91) = Inl RecursionError"
proof -
  have "scan_once (Suc (996 + 996)) 995 (replicate 996 91) = Raised RecursionError"
    by (rule deep_brackets) auto
  then show ?thesis
    by (simp add: json_loads_def skip_ws_def is_ws_def recursion_limit_def dropWhile_replicate)
qed

section \<open>The three branches\<close>

text \<open>
  Rewrite sets for running the model on a concrete command line, and what \<open>main\<close> is
  on each shape of \<open>sys.argv\<close>.
\<close>

lemmas json_eval = json_loads_def py_def skip_ws_def is_ws_def is_digit_def
  match_number_def scan_frac_def scan_exp_def digits_val_def parse_int_def
  max_str_digits_def recursion_limit_def dict_of_pairs_def backslash_def hex_val_def

lemmas run_eval = main_def print_def write_line_def utf8_def ascii_def written_def
  exit_status_def get_weather_def plain_runtime_def usage_def int_str_def nat_str.simps
  fresh_process_def

lemma main_schema:
  "argv p = prog # py ''--schema'' # rest \<Longrightarrow> main enc rt p = print enc (json_dumps rt schema) p"
  by (simp add: main_def)

lemma main_execute:
  "argv p = prog # py ''--execute'' # payload # rest \<Longrightarrow>
   main enc rt p =
     (case json_loads payload of
        Inl e \<Rightarrow> Inl e
      | Inr args \<Rightarrow>
          (case py_get args (py ''location'') (PyStr (py ''unknown'')) of
             Inl e \<Rightarrow> Inl e
           | Inr location \<Rightarrow> print enc (get_weather rt location) p))"
  by (simp add: main_def py_def)

lemma main_usage:
  "argv p = [] \<or> argv p = [prog] \<or> argv p = [prog, py ''--execute''] \<or>
   (argv p = prog # mode # rest \<and> mode \<noteq> py ''--schema'' \<and> mode \<noteq> py ''--execute'') \<Longrightarrow>
   main enc rt p = print enc usage p"
  by (auto simp: main_def py_def)

lemma print_utf8: "list_all utf8 text \<Longrightarrow> print utf8 text p = Inr (write_line text p)"
  by (simp add: print_def utf8_def)

lemma written_write_line: "written p (Inr (write_line text p)) = Inr (text @ [10])"
  by (simp add: written_def write_line_def)

lemma written_print:
  "written p (print enc text p) =
     (if list_all enc (text @ [10]) then Inr (text @ [10]) else Inl UnicodeEncodeError)"
  by (simp add: print_def written_def write_line_def)

lemma schema_text:
  "json_dumps rt schema = py ''{\"title\": \"get_weather\", \"description\": \"Get the current weather for a location\", \"type\": \"object\", \"properties\": {\"location\": {\"type\": \"string\", \"description\": \"The location to get weather for\"}}, \"required\": [\"location\"]}''"
  by (simp add: schema_def py_def encode_basestring_ascii_def escape_char_def)

lemma schema_text_parses:
  "json_loads (py ''{\"title\": \"get_weather\", \"description\": \"Get the current weather for a location\", \"type\": \"object\", \"properties\": {\"location\": {\"type\": \"string\", \"description\": \"The location to get weather for\"}}, \"required\": [\"location\"]}'') = Inr schema"
  by (simp add: json_eval schema_def)

lemma schema_one_line: "10 \<notin> set (json_dumps rt schema) \<and> 13 \<notin> set (json_dumps rt schema)"
  unfolding schema_text by (simp add: py_def)

lemma schema_utf8: "list_all utf8 (json_dumps rt schema)"
  unfolding schema_text by (simp add: py_def utf8_def)

lemma usage_utf8: "list_all utf8 usage"
  by (simp add: usage_def py_def utf8_def)

lemma empty_object_parses: "json_loads (py ''{}'') = Inr (PyDict [])"
  by (simp add: json_eval)

lemma sentence_utf8: "list_all utf8 (get_weather rt (PyStr s)) \<longleftrightarrow> list_all utf8 s"
  by (simp add: get_weather_def py_def utf8_def)

lemma nat_str_digits: "list_all (\<lambda>c. c < 128) (nat_str n)"
proof (induction n rule: nat_str.induct)
  case (1 n)
  have "n mod 10 < 10" by simp
  then have "48 + n mod 10 < 128" by linarith
  with 1 show ?case
    by (subst nat_str.simps) simp
qed

lemma int_str_utf8: "list_all utf8 (int_str i)"
proof -
  have "list_all utf8 (nat_str n)" for n
    using nat_str_digits [of n] by (simp add: list_all_iff utf8_def) fastforce
  then show ?thesis
    by (simp add: int_str_def utf8_def)
qed

lemma written_schema:
  "argv p = prog # py ''--schema'' # rest \<Longrightarrow>
   written p (main enc rt p) = written p (print enc (json_dumps rt schema) p)"
  by (simp add: main_schema)

lemma written_execute:
  "argv p = prog # py ''--execute'' # payload # rest \<Longrightarrow>
   written p (main enc rt p) =
     (case json_loads payload of
        Inl e \<Rightarrow> Inl e
      | Inr args \<Rightarrow>
          (case py_get args (py ''location'') (PyStr (py ''unknown'')) of
             Inl e \<Rightarrow> Inl e
           | Inr location \<Rightarrow>
               if list_all enc (get_weather rt location @ [10])
               then Inr (get_weather rt location @ [10]) else Inl UnicodeEncodeError))"
  by (simp add: main_execute print_def written_def write_line_def split: sum.splits)

lemma py_get_non_dict: "\<forall>d. v \<noteq> PyDict d \<Longrightarrow> py_get v key dflt = Inl AttributeError"
  by (cases v) simp_all

lemma get_weather_str_inject:
  "get_weather rt (PyStr x) = get_weather rt (PyStr y) \<Longrightarrow> x = y"
  by (simp add: get_weather_def)

section \<open>Properties\<close>

text \<open>
  C1. For every string \<open>location\<close>, the empty string included, \<open>get_weather(location)\<close>
  is exactly the sentence "The weather in ", the location, " is sunny and 72", the degree
  sign, "F". The function is a total, pure function of its argument: its result is a
  text, with no error value and no state.
\<close>

theorem get_weather_sentence:
  "get_weather rt (PyStr location) =
     py ''The weather in '' @ location @ py '' is sunny and 72'' @ [176] @ py ''F''
   \<and> get_weather rt (PyStr []) = py ''The weather in  is sunny and 72'' @ [176] @ py ''F''"
  by (simp add: get_weather_def py_def)

text \<open>
  C2. When the first argument is \<open>--schema\<close>, whatever follows it, the program prints
  one line and exits normally. The line is \<open>json.dumps\<close> of the schema literal; it
  holds no line feed and no carriage return, and decoded again by \<open>json.loads\<close> it is
  a JSON object whose \<open>title\<close> is \<open>get_weather\<close>, whose \<open>type\<close> is \<open>object\<close>,
  whose \<open>required\<close> is the list \<open>["location"]\<close>, and whose
  \<open>properties.location.type\<close> is \<open>string\<close>. Standard output is the default UTF-8
  stream here and wherever \<open>utf8\<close> stands below.
\<close>

theorem schema_mode_output:
  assumes "argv p = prog # py ''--schema'' # rest"
  shows "\<exists>doc props loc.
           main utf8 rt p = Inr (write_line (json_dumps rt schema) p) \<and>
           10 \<notin> set (json_dumps rt schema) \<and> 13 \<notin> set (json_dumps rt schema) \<and>
           json_loads (json_dumps rt schema) = Inr (PyDict doc) \<and>
           map_of doc (py ''title'') = Some (PyStr (py ''get_weather'')) \<and>
           map_of doc (py ''type'') = Some (PyStr (py ''object'')) \<and>
           map_of doc (py ''required'') = Some (PyList [PyStr (py ''location'')]) \<and>
           map_of doc (py ''properties'') = Some (PyDict props) \<and>
           map_of props (py ''location'') = Some (PyDict loc) \<and>
           map_of loc (py ''type'') = Some (PyStr (py ''string''))"
proof -
  have run: "main utf8 rt p = Inr (write_line (json_dumps rt schema) p)"
    using assms by (simp add: main_schema print_utf8 schema_utf8)
  have parsed: "json_loads (json_dumps rt schema) = Inr schema"
    unfolding schema_text by (rule schema_text_parses)
  show ?thesis
    using run parsed schema_one_line [of rt]
    by (simp add: schema_def py_def)
qed

text \<open>
  The run \<open>weather.py --schema\<close>, with the line it prints.
\<close>

theorem schema_mode_output_witness:
  "written (fresh_process [py ''weather.py'', py ''--schema''])
     (main utf8 plain_runtime (fresh_process [py ''weather.py'', py ''--schema'']))
   = Inr (py ''{\"title\": \"get_weather\", \"description\": \"Get the current weather for a location\", \"type\": \"object\", \"properties\": {\"location\": {\"type\": \"string\", \"description\": \"The location to get weather for\"}}, \"required\": [\"location\"]}'' @ [10])"
proof -
  have "argv (fresh_process [py ''weather.py'', py ''--schema''])
          = py ''weather.py'' # py ''--schema'' # []"
    by (simp add: fresh_process_def)
  from schema_mode_output [OF this, of plain_runtime] show ?thesis
    by (auto simp: written_write_line schema_text)
qed

text \<open>
  C3. In execute mode, when the payload decodes to an object without the key
  \<open>location\<close>, the capability is called with the text \<open>unknown\<close>, and the run prints
  "The weather in unknown is sunny and 72", the degree sign, "F". In particular this is
  what \<open>--execute '{}'\<close> prints.
\<close>

theorem execute_missing_location:
  "(argv p = prog # py ''--execute'' # payload # rest \<and>
    json_loads payload = Inr (PyDict d) \<and> map_of d (py ''location'') = None \<longrightarrow>
      main utf8 rt p = print utf8 (get_weather rt (PyStr (py ''unknown''))) p \<and>
      main utf8 rt p = Inr (write_line (get_weather rt (PyStr (py ''unknown''))) p) \<and>
      written p (main utf8 rt p) =
        Inr (py ''The weather in unknown is sunny and 72'' @ [176] @ py ''F'' @ [10])) \<and>
   (argv q = prog' # py ''--execute'' # py ''{}'' # rest' \<longrightarrow>
      written q (main utf8 rt q) =
        Inr (py ''The weather in unknown is sunny and 72'' @ [176] @ py ''F'' @ [10]))"
proof -
  have sentence: "get_weather rt (PyStr (py ''unknown'')) =
      py ''The weather in unknown is sunny and 72'' @ [176] @ py ''F''"
    by (simp add: get_weather_def py_def)
  have ok: "list_all utf8 (get_weather rt (PyStr (py ''unknown'')))"
    by (simp add: sentence_utf8) (simp add: py_def utf8_def)
  have general:
    "main utf8 rt p' = print utf8 (get_weather rt (PyStr (py ''unknown''))) p' \<and>
     main utf8 rt p' = Inr (write_line (get_weather rt (PyStr (py ''unknown''))) p')"
    if "argv p' = a # py ''--execute'' # s # r" and "json_loads s = Inr (PyDict d')"
      and "map_of d' (py ''location'') = None"
    for p' a s r d'
    using that ok by (simp add: main_execute print_utf8)
  have out: "written p' (Inr (write_line (get_weather rt (PyStr (py ''unknown''))) p')) =
      Inr (py ''The weather in unknown is sunny and 72'' @ [176] @ py ''F'' @ [10])" for p'
    unfolding written_write_line sentence by simp
  show ?thesis
  proof (intro conjI impI)
    assume h: "argv p = prog # py ''--execute'' # payload # rest \<and>
      json_loads payload = Inr (PyDict d) \<and> map_of d (py ''location'') = None"
    then have g: "main utf8 rt p = print utf8 (get_weather rt (PyStr (py ''unknown''))) p \<and>
        main utf8 rt p = Inr (write_line (get_weather rt (PyStr (py ''unknown''))) p)"
      using general [of p prog payload rest d] by blast
    from g show "main utf8 rt p = print utf8 (get_weather rt (PyStr (py ''unknown''))) p"
      by (rule conjunct1)
    from g show "main utf8 rt p = Inr (write_line (get_weather rt (PyStr (py ''unknown''))) p)"
      by (rule conjunct2)
    from g [THEN conjunct2] show "written p (main utf8 rt p) =
        Inr (py ''The weather in unknown is sunny and 72'' @ [176] @ py ''F'' @ [10])"
      using out [of p] by (simp only:)
  next
    assume h: "argv q = prog' # py ''--execute'' # py ''{}'' # rest'"
    have "main utf8 rt q = Inr (write_line (get_weather rt (PyStr (py ''unknown''))) q)"
      using h empty_object_parses general [of q prog' "py ''{}''" rest' "[]"]
      by (simp add: print_utf8 ok)
    then show "written q (main utf8 rt q) =
        Inr (py ''The weather in unknown is sunny and 72'' @ [176] @ py ''F'' @ [10])"
      using out [of q] by (simp only:)
  qed
qed

text \<open>
  The runs \<open>--execute '{"city": "Paris"}'\<close> and \<open>--execute '{}'\<close>.
\<close>

theorem execute_missing_location_witness:
  "written (fresh_process [py ''weather.py'', py ''--execute'', py ''{\"city\": \"Paris\"}''])
     (main utf8 plain_runtime
        (fresh_process [py ''weather.py'', py ''--execute'', py ''{\"city\": \"Paris\"}'']))
     = Inr (py ''The weather in unknown is sunny and 72'' @ [176] @ py ''F'' @ [10]) \<and>
   written (fresh_process [py ''weather.py'', py ''--execute'', py ''{}''])
     (main utf8 plain_runtime (fresh_process [py ''weather.py'', py ''--execute'', py ''{}'']))
     = Inr (py ''The weather in unknown is sunny and 72'' @ [176] @ py ''F'' @ [10])"
proof -
  let ?p = "fresh_process [py ''weather.py'', py ''--execute'', py ''{\"city\": \"Paris\"}'']"
  let ?q = "fresh_process [py ''weather.py'', py ''--execute'', py ''{}'']"
  note claim = execute_missing_location
      [where p = ?p and prog = "py ''weather.py''" and payload = "py ''{\"city\": \"Paris\"}''"
         and rest = "[]" and d = "[(py ''city'', PyStr (py ''Paris''))]"
         and q = ?q and prog' = "py ''weather.py''" and rest' = "[]" and rt = plain_runtime]
  have hp: "argv ?p = py ''weather.py'' # py ''--execute'' # py ''{\"city\": \"Paris\"}'' # [] \<and>
      json_loads (py ''{\"city\": \"Paris\"}'') = Inr (PyDict [(py ''city'', PyStr (py ''Paris''))]) \<and>
      map_of [(py ''city'', PyStr (py ''Paris''))] (py ''location'') = None"
    by (simp add: json_eval fresh_process_def)
  have hq: "argv ?q = py ''weather.py'' # py ''--execute'' # py ''{}'' # []"
    by (simp add: fresh_process_def)
  from claim [THEN conjunct1, THEN mp, OF hp, THEN conjunct2, THEN conjunct2]
       claim [THEN conjunct2, THEN mp, OF hq]
  show ?thesis by (rule conjI)
qed

text \<open>
  C4, as the program behaves. \<open>args.get("location", "unknown")\<close> returns the stored
  value whatever its type; the default is used only when the key is absent. So when the
  object maps \<open>location\<close> to a value \<open>v\<close> that is not a string, \<open>.get\<close> returns \<open>v\<close>
  itself, the capability is called with \<open>v\<close>, and what is handed to \<open>print\<close>, on any
  standard output, is the sentence around \<open>repr(v)\<close>. On the default stream the run
  prints the decimal digits for an integer, \<open>None\<close> for \<open>null\<close>, \<open>True\<close> and
  \<open>False\<close> for the booleans.
\<close>

theorem execute_passes_location_through:
  assumes "argv p = prog # py ''--execute'' # payload # rest"
    and "json_loads payload = Inr (PyDict d)"
    and "map_of d (py ''location'') = Some v"
    and "\<forall>s. v \<noteq> PyStr s"
  shows "py_get (PyDict d) (py ''location'') (PyStr (py ''unknown'')) = Inr v \<and>
         main enc rt p = print enc (get_weather rt v) p \<and>
         get_weather rt v =
           py ''The weather in '' @ py_repr rt v @ py '' is sunny and 72'' @ [176] @ py ''F'' \<and>
         (v = PyInt i \<longrightarrow>
            written p (main utf8 rt p) =
              Inr (py ''The weather in '' @ int_str i @ py '' is sunny and 72'' @ [176] @
                   py ''F'' @ [10])) \<and>
         (v = PyNone \<longrightarrow>
            written p (main utf8 rt p) =
              Inr (py ''The weather in None is sunny and 72'' @ [176] @ py ''F'' @ [10])) \<and>
         (v = PyBool True \<longrightarrow>
            written p (main utf8 rt p) =
              Inr (py ''The weather in True is sunny and 72'' @ [176] @ py ''F'' @ [10])) \<and>
         (v = PyBool False \<longrightarrow>
            written p (main utf8 rt p) =
              Inr (py ''The weather in False is sunny and 72'' @ [176] @ py ''F'' @ [10]))"
proof -
  have run: "main enc' rt p = print enc' (get_weather rt v) p" for enc'
    using assms by (simp add: main_execute)
  have repr: "py_format rt v = py_repr rt v"
    using assms(4) by (cases v) simp_all
  have int_ok: "list_all utf8 (py ''The weather in '' @ int_str i @ py '' is sunny and 72'' @ [176] @ py ''F'' @ [10])"
    using int_str_utf8 [of i] by (simp add: py_def utf8_def)
  show ?thesis
    using assms(2,3) run repr int_ok
    by (auto simp: written_print get_weather_def)
       (simp_all add: py_def utf8_def)
qed

text \<open>
  The run \<open>--execute '{"location": null}'\<close> prints "The weather in None ...".
\<close>

theorem execute_passes_location_through_witness:
  "written (fresh_process [py ''weather.py'', py ''--execute'', py ''{\"location\": null}''])
     (main utf8 plain_runtime
        (fresh_process [py ''weather.py'', py ''--execute'', py ''{\"location\": null}'']))
     = Inr (py ''The weather in None is sunny and 72'' @ [176] @ py ''F'' @ [10])"
proof -
  let ?p = "fresh_process [py ''weather.py'', py ''--execute'', py ''{\"location\": null}'']"
  have 1: "argv ?p = py ''weather.py'' # py ''--execute'' # py ''{\"location\": null}'' # []"
    by (simp add: fresh_process_def)
  have 2: "json_loads (py ''{\"location\": null}'') = Inr (PyDict [(py ''location'', PyNone)])"
    by (simp add: json_eval)
  have 3: "map_of [(py ''location'', PyNone)] (py ''location'') = Some PyNone"
    by simp
  have 4: "\<forall>s. PyNone \<noteq> PyStr s"
    by simp
  from execute_passes_location_through [OF 1 2 3 4, of utf8 plain_runtime,
      THEN conjunct2, THEN conjunct2, THEN conjunct2, THEN conjunct2, THEN conjunct1]
  show ?thesis by simp
qed

text \<open>
  The claim as first stated, that a non-string \<open>location\<close> falls back to \<open>unknown\<close>,
  fails on \<open>--execute '{"location": 42}'\<close>: the run prints "The weather in 42 ...",
  which is not the sentence for \<open>unknown\<close>.
\<close>

theorem execute_non_string_location_counterexample:
  "json_loads (py ''{\"location\": 42}'') = Inr (PyDict [(py ''location'', PyInt 42)]) \<and>
   py_get (PyDict [(py ''location'', PyInt 42)]) (py ''location'') (PyStr (py ''unknown''))
     = Inr (PyInt 42) \<and>
   written (fresh_process [py ''weather.py'', py ''--execute'', py ''{\"location\": 42}''])
     (main utf8 plain_runtime
        (fresh_process [py ''weather.py'', py ''--execute'', py ''{\"location\": 42}'']))
     = Inr (py ''The weather in 42 is sunny and 72'' @ [176] @ py ''F'' @ [10]) \<and>
   get_weather plain_runtime (PyStr (py ''unknown'')) @ [10]
     \<noteq> py ''The weather in 42 is sunny and 72'' @ [176] @ py ''F'' @ [10]"
  by (simp add: json_eval run_eval)

text \<open>
  C5, as the program behaves. A run on the default standard output ends with an uncaught
  exception \<open>e\<close>, and so with a non-zero exit status, exactly when the mode is
  \<open>--execute\<close> with a second argument present and one of three things happens:
  \<open>json.loads\<close> raises \<open>e\<close> on that argument, which is \<open>JSONDecodeError\<close> for text that
  is not JSON, \<open>ValueError\<close> for an integer literal beyond the digit limit and
  \<open>RecursionError\<close> for nesting beyond the recursion limit; or the argument decodes to
  a value that is not an object, and \<open>e\<close> is the \<open>AttributeError\<close> of \<open>.get\<close>; or it
  decodes to an object, and \<open>e\<close> is the \<open>UnicodeEncodeError\<close> of \<open>print\<close> on a
  sentence that the stream cannot encode. Every other run exits with status 0.
\<close>

theorem failure_paths:
  "(main utf8 rt p = Inl e \<longleftrightarrow>
      (\<exists>prog payload rest. argv p = prog # py ''--execute'' # payload # rest \<and>
         (json_loads payload = Inl e \<or>
          e = AttributeError \<and> (\<exists>v. json_loads payload = Inr v \<and> (\<forall>d. v \<noteq> PyDict d)) \<or>
          e = UnicodeEncodeError \<and>
            (\<exists>d. json_loads payload = Inr (PyDict d) \<and>
               \<not> list_all utf8
                   (get_weather rt
                      (case map_of d (py ''location'') of
                         None \<Rightarrow> PyStr (py ''unknown'') | Some v \<Rightarrow> v)))))) \<and>
   (json_loads s = Inl e \<longrightarrow> e = JSONDecodeError \<or> e = ValueError \<or> e = RecursionError) \<and>
   (exit_status (main utf8 rt p) \<noteq> 0 \<longleftrightarrow> (\<exists>e'. main utf8 rt p = Inl e')) \<and>
   (exit_status (main utf8 rt p) = 0 \<or> exit_status (main utf8 rt p) = 1)"
proof -
  let ?failing = "\<exists>prog payload rest. argv p = prog # py ''--execute'' # payload # rest \<and>
         (json_loads payload = Inl e \<or>
          e = AttributeError \<and> (\<exists>v. json_loads payload = Inr v \<and> (\<forall>d. v \<noteq> PyDict d)) \<or>
          e = UnicodeEncodeError \<and>
            (\<exists>d. json_loads payload = Inr (PyDict d) \<and>
               \<not> list_all utf8
                   (get_weather rt
                      (case map_of d (py ''location'') of
                         None \<Rightarrow> PyStr (py ''unknown'') | Some v \<Rightarrow> v))))"
  have decoder: "e' = JSONDecodeError \<or> e' = ValueError \<or> e' = RecursionError"
    if "json_loads t = Inl e'" for t e'
    using that by (rule json_loads_error)
  have status: "(exit_status r \<noteq> 0 \<longleftrightarrow> (\<exists>e'. r = Inl e')) \<and> (exit_status r = 0 \<or> exit_status r = 1)"
    for r :: "py_error + process"
    by (cases r) (simp_all add: exit_status_def)
  consider
      (usage) prog mode rest where
        "argv p = [] \<or> argv p = [prog] \<or> argv p = [prog, py ''--execute''] \<or>
         (argv p = prog # mode # rest \<and> mode \<noteq> py ''--schema'' \<and> mode \<noteq> py ''--execute'')"
    | (schema) prog rest where "argv p = prog # py ''--schema'' # rest"
    | (execute) prog payload rest where "argv p = prog # py ''--execute'' # payload # rest"
  proof (cases "argv p")
    case Nil
    then show ?thesis using usage by blast
  next
    case outer: (Cons prog args)
    show ?thesis
    proof (cases args)
      case Nil
      with outer show ?thesis using usage by blast
    next
      case inner: (Cons mode rest)
      show ?thesis
      proof (cases rest)
        case Nil
        with outer inner show ?thesis using usage schema by blast
      next
        case (Cons payload rest')
        with outer inner show ?thesis using usage schema execute by blast
      qed
    qed
  qed
  then have "main utf8 rt p = Inl e \<longleftrightarrow> ?failing"
  proof cases
    case usage
    then have "main utf8 rt p = Inr (write_line usage p)"
      by (simp add: main_usage [of p prog mode rest] print_utf8 usage_utf8)
    moreover have "\<not> (\<exists>prog payload rest. argv p = prog # py ''--execute'' # payload # rest)"
      using usage by auto
    ultimately show ?thesis
      by auto
  next
    case schema
    then have "main utf8 rt p = Inr (write_line (json_dumps rt schema) p)"
      by (simp add: main_schema print_utf8 schema_utf8)
    moreover have "\<not> (\<exists>prog payload rest. argv p = prog # py ''--execute'' # payload # rest)"
      using schema by (auto simp: py_def)
    ultimately show ?thesis
      by auto
  next
    case execute
    show ?thesis
    proof (cases "json_loads payload")
      case (Inl e')
      then have "e' = JSONDecodeError \<or> e' = ValueError \<or> e' = RecursionError"
        by (rule decoder)
      with Inl execute show ?thesis
        by (auto simp: main_execute)
    next
      case (Inr v)
      show ?thesis
      proof (cases "\<exists>d. v = PyDict d")
        case False
        then have "py_get v (py ''location'') (PyStr (py ''unknown'')) = Inl AttributeError"
          by (simp add: py_get_non_dict)
        with False Inr execute show ?thesis
          by (auto simp: main_execute)
      next
        case True
        then obtain d where d: "v = PyDict d" by blast
        with Inr execute show ?thesis
          by (auto simp: main_execute print_def utf8_def)
      qed
    qed
  qed
  then show ?thesis
    using decoder [of s e] status [of "main utf8 rt p"] by blast
qed

text \<open>
  Four failing runs: a payload that is not JSON, an integer of 4301 digits, 996 opening
  brackets, and a location that is a lone surrogate.
\<close>

theorem failure_paths_witness:
  "main utf8 plain_runtime (fresh_process [py ''weather.py'', py ''--execute'', py ''not json''])
     = Inl JSONDecodeError \<and>
   main utf8 plain_runtime (fresh_process [py ''weather.py'', py ''--execute'', 49 # replicate 4300 49])
     = Inl ValueError \<and>
   main utf8 plain_runtime (fresh_process [py ''weather.py'', py ''--execute'', replicate 996 91])
     = Inl RecursionError \<and>
   main utf8 plain_runtime
     (fresh_process [py ''weather.py'', py ''--execute'',
        py ''{\"location\": \"'' @ [92] @ py ''ud800\"}''])
     = Inl UnicodeEncodeError"
proof -
  have raised: "main utf8 plain_runtime (fresh_process [py ''weather.py'', py ''--execute'', payload])
      = Inl e" if "json_loads payload = Inl e" for payload e
  proof -
    have "\<exists>prog payload' rest.
        argv (fresh_process [py ''weather.py'', py ''--execute'', payload])
          = prog # py ''--execute'' # payload' # rest \<and>
         (json_loads payload' = Inl e \<or>
          e = AttributeError \<and> (\<exists>v. json_loads payload' = Inr v \<and> (\<forall>d. v \<noteq> PyDict d)) \<or>
          e = UnicodeEncodeError \<and>
            (\<exists>d. json_loads payload' = Inr (PyDict d) \<and>
               \<not> list_all utf8
                   (get_weather plain_runtime
                      (case map_of d (py ''location'') of
                         None \<Rightarrow> PyStr (py ''unknown'') | Some v \<Rightarrow> v))))"
      using that
      by (rule_tac x = "py ''weather.py''" in exI, rule_tac x = payload in exI,
          rule_tac x = "[]" in exI)
         (simp add: fresh_process_def)
    then show ?thesis
      by (rule failure_paths [THEN conjunct1, THEN iffD2])
  qed
  have not_json: "json_loads (py ''not json'') = Inl JSONDecodeError"
    by (simp add: json_eval)
  have surrogate: "json_loads (py ''{\"location\": \"'' @ [92] @ py ''ud800\"}'')
      = Inr (PyDict [(py ''location'', PyStr [0xD800])])"
    by (simp add: json_eval)
  have started: "argv (fresh_process [py ''weather.py'', py ''--execute'',
                py ''{\"location\": \"'' @ [92] @ py ''ud800\"}''])
          = py ''weather.py'' # py ''--execute'' # (py ''{\"location\": \"'' @ [92] @ py ''ud800\"}'') # []"
    by (simp add: fresh_process_def)
  have refused: "\<not> list_all utf8
      (get_weather plain_runtime
         (case map_of [(py ''location'', PyStr [0xD800])] (py ''location'') of
            None \<Rightarrow> PyStr (py ''unknown'') | Some v \<Rightarrow> v))"
    by (simp add: sentence_utf8 utf8_def)
  from started surrogate refused
  have "\<exists>prog payload' rest.
        argv (fresh_process [py ''weather.py'', py ''--execute'',
                py ''{\"location\": \"'' @ [92] @ py ''ud800\"}''])
          = prog # py ''--execute'' # payload' # rest \<and>
         (json_loads payload' = Inl UnicodeEncodeError \<or>
          UnicodeEncodeError = AttributeError \<and>
            (\<exists>v. json_loads payload' = Inr v \<and> (\<forall>d. v \<noteq> PyDict d)) \<or>
          UnicodeEncodeError = UnicodeEncodeError \<and>
            (\<exists>d. json_loads payload' = Inr (PyDict d) \<and>
               \<not> list_all utf8
                   (get_weather plain_runtime
                      (case map_of d (py ''location'') of
                         None \<Rightarrow> PyStr (py ''unknown'') | Some v \<Rightarrow> v))))"
    by blast
  then have unencodable: "main utf8 plain_runtime
     (fresh_process [py ''weather.py'', py ''--execute'',
        py ''{\"location\": \"'' @ [92] @ py ''ud800\"}''])
     = Inl UnicodeEncodeError"
    by (rule failure_paths [THEN conjunct1, THEN iffD2])
  from raised [OF not_json] raised [OF long_integer_raises] raised [OF deep_nesting_raises]
    unencodable
  show ?thesis by (intro conjI)
qed

text \<open>
  The claim as first stated, that a payload which is not decodable is the only failure,
  fails on \<open>--execute '[1, 2]'\<close>: the payload is valid JSON, and the run still ends
  with an uncaught exception and status 1.
\<close>

theorem malformed_json_only_failure_counterexample:
  "json_loads (py ''[1, 2]'') = Inr (PyList [PyInt 1, PyInt 2]) \<and>
   main utf8 plain_runtime (fresh_process [py ''weather.py'', py ''--execute'', py ''[1, 2]''])
     = Inl AttributeError \<and>
   exit_status
     (main utf8 plain_runtime (fresh_process [py ''weather.py'', py ''--execute'', py ''[1, 2]'']))
     = 1"
  by (simp add: json_eval run_eval)

text \<open>
  C6. When there is no first argument, or the first argument is neither \<open>--schema\<close> nor
  \<open>--execute\<close>, or it is \<open>--execute\<close> with nothing after it, the program prints the
  usage line, nothing else, and exits with status 0.
\<close>

theorem usage_mode:
  assumes "argv p = [] \<or> argv p = [prog] \<or> argv p = [prog, py ''--execute''] \<or>
           (argv p = prog # mode # rest \<and> mode \<noteq> py ''--schema'' \<and> mode \<noteq> py ''--execute'')"
  shows "main utf8 rt p = Inr (write_line usage p) \<and>
         exit_status (main utf8 rt p) = 0 \<and>
         written p (main utf8 rt p) =
           Inr (py ''Usage: weather.py --schema | weather.py --execute '{\"location\": \"New York\"}'' @
                [39] @ [10])"
proof -
  have "main utf8 rt p = print utf8 usage p"
    using assms by (rule main_usage)
  then have "main utf8 rt p = Inr (write_line usage p)"
    by (simp add: print_utf8 usage_utf8)
  then show ?thesis
    by (simp add: written_write_line exit_status_def usage_def)
qed

text \<open>
  The runs with no argument, with \<open>--execute\<close> alone, and with \<open>--help {}\<close>.
\<close>

theorem usage_mode_witness:
  "written (fresh_process [py ''weather.py''])
     (main utf8 plain_runtime (fresh_process [py ''weather.py'']))
     = Inr (py ''Usage: weather.py --schema | weather.py --execute '{\"location\": \"New York\"}'' @
            [39] @ [10]) \<and>
   written (fresh_process [py ''weather.py'', py ''--execute''])
     (main utf8 plain_runtime (fresh_process [py ''weather.py'', py ''--execute'']))
     = Inr (py ''Usage: weather.py --schema | weather.py --execute '{\"location\": \"New York\"}'' @
            [39] @ [10]) \<and>
   exit_status
     (main utf8 plain_runtime (fresh_process [py ''weather.py'', py ''--help'', py ''{}''])) = 0"
proof -
  let ?p = "fresh_process [py ''weather.py'']"
  let ?q = "fresh_process [py ''weather.py'', py ''--execute'']"
  let ?r = "fresh_process [py ''weather.py'', py ''--help'', py ''{}'']"
  have hp: "argv ?p = [] \<or> argv ?p = [py ''weather.py''] \<or>
      argv ?p = [py ''weather.py'', py ''--execute''] \<or>
      (argv ?p = py ''weather.py'' # [] # [] \<and> [] \<noteq> py ''--schema'' \<and> [] \<noteq> py ''--execute'')"
    by (simp add: fresh_process_def)
  have hq: "argv ?q = [] \<or> argv ?q = [py ''weather.py''] \<or>
      argv ?q = [py ''weather.py'', py ''--execute''] \<or>
      (argv ?q = py ''weather.py'' # [] # [] \<and> [] \<noteq> py ''--schema'' \<and> [] \<noteq> py ''--execute'')"
    by (simp add: fresh_process_def)
  have hr: "argv ?r = [] \<or> argv ?r = [py ''weather.py''] \<or>
      argv ?r = [py ''weather.py'', py ''--execute''] \<or>
      (argv ?r = py ''weather.py'' # py ''--help'' # [py ''{}''] \<and>
       py ''--help'' \<noteq> py ''--schema'' \<and> py ''--help'' \<noteq> py ''--execute'')"
    by (simp add: py_def fresh_process_def)
  from usage_mode [OF hp, of plain_runtime, THEN conjunct2, THEN conjunct2]
       usage_mode [OF hq, of plain_runtime, THEN conjunct2, THEN conjunct2]
       usage_mode [OF hr, of plain_runtime, THEN conjunct2, THEN conjunct1]
  show ?thesis by (intro conjI)
qed

text \<open>
  C7. The schema and the execution path agree on the parameters. The line that a run
  with \<open>--schema\<close> prints, decoded, has \<open>required\<close> equal to \<open>["location"]\<close> and
  \<open>location\<close> as the only key of \<open>properties\<close>. The execute branch reads that key and
  no other: two payload objects that agree on \<open>location\<close> give the same outcome whatever
  else they hold, on any standard output; and two objects with different strings at
  \<open>location\<close>, at least one of which the default stream can encode, give different
  outcomes.
\<close>

theorem schema_consistent_with_execute:
  "(argv u = prog'' # py ''--schema'' # rest'' \<longrightarrow>
      (\<exists>line doc props.
         written u (main utf8 rt u) = Inr (line @ [10]) \<and>
         json_loads line = Inr (PyDict doc) \<and>
         map_of doc (py ''required'') = Some (PyList [PyStr (py ''location'')]) \<and>
         map_of doc (py ''properties'') = Some (PyDict props) \<and>
         map fst props = [py ''location''])) \<and>
   (argv p = prog # py ''--execute'' # payload # rest \<and>
    argv q = prog' # py ''--execute'' # payload' # rest' \<and>
    json_loads payload = Inr (PyDict d) \<and> json_loads payload' = Inr (PyDict d') \<and>
    map_of d (py ''location'') = map_of d' (py ''location'') \<longrightarrow>
      written p (main enc rt p) = written q (main enc rt q)) \<and>
   (argv p = prog # py ''--execute'' # payload # rest \<and>
    argv q = prog' # py ''--execute'' # payload' # rest' \<and>
    json_loads payload = Inr (PyDict d) \<and> json_loads payload' = Inr (PyDict d') \<and>
    map_of d (py ''location'') = Some (PyStr x) \<and>
    map_of d' (py ''location'') = Some (PyStr y) \<and> x \<noteq> y \<and>
    (list_all utf8 x \<or> list_all utf8 y) \<longrightarrow>
      written p (main utf8 rt p) \<noteq> written q (main utf8 rt q))"
proof (intro conjI impI)
  assume h: "argv u = prog'' # py ''--schema'' # rest''"
  have printed: "written u (main utf8 rt u) = Inr (json_dumps rt schema @ [10])"
    using h by (simp add: main_schema print_utf8 schema_utf8 written_write_line)
  have "json_loads (json_dumps rt schema) = Inr schema"
    unfolding schema_text by (rule schema_text_parses)
  then have "json_loads (json_dumps rt schema) = Inr (PyDict
       [(py ''title'', PyStr (py ''get_weather'')),
        (py ''description'', PyStr (py ''Get the current weather for a location'')),
        (py ''type'', PyStr (py ''object'')),
        (py ''properties'', PyDict [
           (py ''location'', PyDict [
              (py ''type'', PyStr (py ''string'')),
              (py ''description'', PyStr (py ''The location to get weather for''))])]),
        (py ''required'', PyList [PyStr (py ''location'')])]) \<and>
      map_of [(py ''title'', PyStr (py ''get_weather'')),
        (py ''description'', PyStr (py ''Get the current weather for a location'')),
        (py ''type'', PyStr (py ''object'')),
        (py ''properties'', PyDict [
           (py ''location'', PyDict [
              (py ''type'', PyStr (py ''string'')),
              (py ''description'', PyStr (py ''The location to get weather for''))])]),
        (py ''required'', PyList [PyStr (py ''location'')])] (py ''required'')
        = Some (PyList [PyStr (py ''location'')]) \<and>
      map_of [(py ''title'', PyStr (py ''get_weather'')),
        (py ''description'', PyStr (py ''Get the current weather for a location'')),
        (py ''type'', PyStr (py ''object'')),
        (py ''properties'', PyDict [
           (py ''location'', PyDict [
              (py ''type'', PyStr (py ''string'')),
              (py ''description'', PyStr (py ''The location to get weather for''))])]),
        (py ''required'', PyList [PyStr (py ''location'')])] (py ''properties'')
        = Some (PyDict [
           (py ''location'', PyDict [
              (py ''type'', PyStr (py ''string'')),
              (py ''description'', PyStr (py ''The location to get weather for''))])]) \<and>
      map fst [(py ''location'', PyDict [
              (py ''type'', PyStr (py ''string'')),
              (py ''description'', PyStr (py ''The location to get weather for''))])]
        = [py ''location'']"
    by (simp add: schema_def py_def)
  with printed show "\<exists>line doc props.
         written u (main utf8 rt u) = Inr (line @ [10]) \<and>
         json_loads line = Inr (PyDict doc) \<and>
         map_of doc (py ''required'') = Some (PyList [PyStr (py ''location'')]) \<and>
         map_of doc (py ''properties'') = Some (PyDict props) \<and>
         map fst props = [py ''location'']"
    apply (rule_tac x = "json_dumps rt schema" in exI)
    apply (rule_tac x = "[(py ''title'', PyStr (py ''get_weather'')),
        (py ''description'', PyStr (py ''Get the current weather for a location'')),
        (py ''type'', PyStr (py ''object'')),
        (py ''properties'', PyDict [
           (py ''location'', PyDict [
              (py ''type'', PyStr (py ''string'')),
              (py ''description'', PyStr (py ''The location to get weather for''))])]),
        (py ''required'', PyList [PyStr (py ''location'')])]" in exI)
    apply (rule_tac x = "[(py ''location'', PyDict [
              (py ''type'', PyStr (py ''string'')),
              (py ''description'', PyStr (py ''The location to get weather for''))])]" in exI)
    apply (intro conjI)
        apply (elim conjE, assumption)+
    done
next
  assume "argv p = prog # py ''--execute'' # payload # rest \<and>
    argv q = prog' # py ''--execute'' # payload' # rest' \<and>
    json_loads payload = Inr (PyDict d) \<and> json_loads payload' = Inr (PyDict d') \<and>
    map_of d (py ''location'') = map_of d' (py ''location'')"
  then show "written p (main enc rt p) = written q (main enc rt q)"
    by (simp add: written_execute)
next
  assume h: "argv p = prog # py ''--execute'' # payload # rest \<and>
    argv q = prog' # py ''--execute'' # payload' # rest' \<and>
    json_loads payload = Inr (PyDict d) \<and> json_loads payload' = Inr (PyDict d') \<and>
    map_of d (py ''location'') = Some (PyStr x) \<and>
    map_of d' (py ''location'') = Some (PyStr y) \<and> x \<noteq> y \<and>
    (list_all utf8 x \<or> list_all utf8 y)"
  have line_feed: "utf8 10"
    by (simp add: utf8_def)
  have "get_weather rt (PyStr x) \<noteq> get_weather rt (PyStr y)"
    using h get_weather_str_inject by blast
  with h show "written p (main utf8 rt p) \<noteq> written q (main utf8 rt q)"
    by (auto simp: written_execute sentence_utf8 line_feed)
qed

text \<open>
  An extra key \<open>units\<close> does not change the output for Paris; Rome instead of Paris
  does.
\<close>

theorem schema_consistent_with_execute_witness:
  "written
     (fresh_process [py ''weather.py'', py ''--execute'', py ''{\"location\": \"Paris\", \"units\": \"C\"}''])
     (main utf8 plain_runtime
        (fresh_process [py ''weather.py'', py ''--execute'', py ''{\"location\": \"Paris\", \"units\": \"C\"}'']))
   = written
     (fresh_process [py ''weather.py'', py ''--execute'', py ''{\"location\": \"Paris\"}''])
     (main utf8 plain_runtime
        (fresh_process [py ''weather.py'', py ''--execute'', py ''{\"location\": \"Paris\"}''])) \<and>
   written
     (fresh_process [py ''weather.py'', py ''--execute'', py ''{\"location\": \"Rome\"}''])
     (main utf8 plain_runtime
        (fresh_process [py ''weather.py'', py ''--execute'', py ''{\"location\": \"Rome\"}'']))
   \<noteq> written
     (fresh_process [py ''weather.py'', py ''--execute'', py ''{\"location\": \"Paris\"}''])
     (main utf8 plain_runtime
        (fresh_process [py ''weather.py'', py ''--execute'', py ''{\"location\": \"Paris\"}'']))"
proof -
  let ?a = "fresh_process [py ''weather.py'', py ''--execute'', py ''{\"location\": \"Paris\", \"units\": \"C\"}'']"
  let ?b = "fresh_process [py ''weather.py'', py ''--execute'', py ''{\"location\": \"Paris\"}'']"
  let ?c = "fresh_process [py ''weather.py'', py ''--execute'', py ''{\"location\": \"Rome\"}'']"
  have same: "argv ?a = py ''weather.py'' # py ''--execute'' # py ''{\"location\": \"Paris\", \"units\": \"C\"}'' # [] \<and>
      argv ?b = py ''weather.py'' # py ''--execute'' # py ''{\"location\": \"Paris\"}'' # [] \<and>
      json_loads (py ''{\"location\": \"Paris\", \"units\": \"C\"}'')
        = Inr (PyDict [(py ''location'', PyStr (py ''Paris'')), (py ''units'', PyStr (py ''C''))]) \<and>
      json_loads (py ''{\"location\": \"Paris\"}'') = Inr (PyDict [(py ''location'', PyStr (py ''Paris''))]) \<and>
      map_of [(py ''location'', PyStr (py ''Paris'')), (py ''units'', PyStr (py ''C''))] (py ''location'')
        = map_of [(py ''location'', PyStr (py ''Paris''))] (py ''location'')"
    by (simp add: json_eval fresh_process_def)
  have differ: "argv ?c = py ''weather.py'' # py ''--execute'' # py ''{\"location\": \"Rome\"}'' # [] \<and>
      argv ?b = py ''weather.py'' # py ''--execute'' # py ''{\"location\": \"Paris\"}'' # [] \<and>
      json_loads (py ''{\"location\": \"Rome\"}'') = Inr (PyDict [(py ''location'', PyStr (py ''Rome''))]) \<and>
      json_loads (py ''{\"location\": \"Paris\"}'') = Inr (PyDict [(py ''location'', PyStr (py ''Paris''))]) \<and>
      map_of [(py ''location'', PyStr (py ''Rome''))] (py ''location'') = Some (PyStr (py ''Rome'')) \<and>
      map_of [(py ''location'', PyStr (py ''Paris''))] (py ''location'') = Some (PyStr (py ''Paris'')) \<and>
      py ''Rome'' \<noteq> py ''Paris'' \<and>
      (list_all utf8 (py ''Rome'') \<or> list_all utf8 (py ''Paris''))"
    by (simp add: json_eval fresh_process_def utf8_def)
  from schema_consistent_with_execute [THEN conjunct2, THEN conjunct1, THEN mp, OF same]
       schema_consistent_with_execute [THEN conjunct2, THEN conjunct2, THEN mp, OF differ]
  show ?thesis by (rule conjI)
qed




text \<open>
  C9. In execute mode, when the payload decodes to a JSON value that is not an object
  (an array, a string, a number, a boolean or null), the call of \<open>.get\<close> raises
  \<open>AttributeError\<close>: the run prints nothing and exits with status 1.
\<close>

theorem execute_non_object_raises:
  assumes "argv p = prog # py ''--execute'' # payload # rest"
    and "json_loads payload = Inr v"
    and "\<forall>d. v \<noteq> PyDict d"
  shows "main enc rt p = Inl AttributeError \<and> exit_status (main enc rt p) = 1 \<and>
         written p (main enc rt p) = Inl AttributeError"
  using assms
  by (simp add: main_execute py_get_non_dict exit_status_def written_def)

text \<open>
  The runs \<open>--execute '"Paris"'\<close> and \<open>--execute 'null'\<close>.
\<close>

theorem execute_non_object_raises_witness:
  "main utf8 plain_runtime (fresh_process [py ''weather.py'', py ''--execute'', py ''\"Paris\"''])
     = Inl AttributeError \<and>
   main utf8 plain_runtime (fresh_process [py ''weather.py'', py ''--execute'', py ''null''])
     = Inl AttributeError"
proof -
  let ?p = "fresh_process [py ''weather.py'', py ''--execute'', py ''\"Paris\"'']"
  let ?q = "fresh_process [py ''weather.py'', py ''--execute'', py ''null'']"
  have p1: "argv ?p = py ''weather.py'' # py ''--execute'' # py ''\"Paris\"'' # []"
    by (simp add: fresh_process_def)
  have p2: "json_loads (py ''\"Paris\"'') = Inr (PyStr (py ''Paris''))" by (simp add: json_eval)
  have p3: "\<forall>d. PyStr (py ''Paris'') \<noteq> PyDict d" by simp
  have q1: "argv ?q = py ''weather.py'' # py ''--execute'' # py ''null'' # []"
    by (simp add: fresh_process_def)
  have q2: "json_loads (py ''null'') = Inr PyNone" by (simp add: json_eval)
  have q3: "\<forall>d. PyNone \<noteq> PyDict d" by simp
  from execute_non_object_raises [OF p1 p2 p3, of utf8 plain_runtime, THEN conjunct1]
       execute_non_object_raises [OF q1 q2 q3, of utf8 plain_runtime, THEN conjunct1]
  show ?thesis by (rule conjI)
qed

text \<open>
  C10. Arguments after the mode are ignored. With \<open>--schema\<close> first, the output does
  not depend on what follows (nor on the script name); with \<open>--execute\<close> and a payload,
  the outcome, printed text or exception, does not depend on the arguments from the third
  onward.
\<close>

theorem extra_arguments_ignored:
  "(argv p = prog # py ''--schema'' # rest \<and> argv q = prog' # py ''--schema'' # rest' \<longrightarrow>
      written p (main enc rt p) = written q (main enc rt q)) \<and>
   (argv p = prog # py ''--execute'' # payload # rest \<and>
    argv q = prog' # py ''--execute'' # payload # rest' \<longrightarrow>
      written p (main enc rt p) = written q (main enc rt q))"
  by (simp add: written_schema written_execute written_print)

text \<open>
  \<open>--schema --execute {}\<close> prints what \<open>--schema\<close> prints, and a trailing
  \<open>--verbose\<close> does not change the output for Oslo.
\<close>

theorem extra_arguments_ignored_witness:
  "written
     (fresh_process [py ''weather.py'', py ''--schema'', py ''--execute'', py ''{}''])
     (main utf8 plain_runtime
        (fresh_process [py ''weather.py'', py ''--schema'', py ''--execute'', py ''{}'']))
   = written
     (fresh_process [py ''weather.py'', py ''--schema''])
     (main utf8 plain_runtime (fresh_process [py ''weather.py'', py ''--schema''])) \<and>
   written
     (fresh_process [py ''weather.py'', py ''--execute'', py ''{\"location\": \"Oslo\"}'', py ''--verbose''])
     (main utf8 plain_runtime
        (fresh_process [py ''weather.py'', py ''--execute'', py ''{\"location\": \"Oslo\"}'', py ''--verbose'']))
   = written
     (fresh_process [py ''weather.py'', py ''--execute'', py ''{\"location\": \"Oslo\"}''])
     (main utf8 plain_runtime
        (fresh_process [py ''weather.py'', py ''--execute'', py ''{\"location\": \"Oslo\"}'']))"
proof -
  let ?a = "fresh_process [py ''weather.py'', py ''--schema'', py ''--execute'', py ''{}'']"
  let ?b = "fresh_process [py ''weather.py'', py ''--schema'']"
  let ?c = "fresh_process [py ''weather.py'', py ''--execute'', py ''{\"location\": \"Oslo\"}'', py ''--verbose'']"
  let ?d = "fresh_process [py ''weather.py'', py ''--execute'', py ''{\"location\": \"Oslo\"}'']"
  have s: "argv ?a = py ''weather.py'' # py ''--schema'' # [py ''--execute'', py ''{}''] \<and>
      argv ?b = py ''weather.py'' # py ''--schema'' # []"
    by (simp add: fresh_process_def)
  have e: "argv ?c = py ''weather.py'' # py ''--execute'' # py ''{\"location\": \"Oslo\"}'' # [py ''--verbose''] \<and>
      argv ?d = py ''weather.py'' # py ''--execute'' # py ''{\"location\": \"Oslo\"}'' # []"
    by (simp add: fresh_process_def)
  from extra_arguments_ignored [THEN conjunct1, THEN mp, OF s]
       extra_arguments_ignored [THEN conjunct2, THEN mp, OF e]
  show ?thesis by (rule conjI)
qed

end
